theory Spec2Isabelle
  imports Main
begin

section \<open>Schema registry (src/types/columnSchema.ts)\<close>

text \<open>
  The closed set of system columns, in the order in which \<open>COLUMN_SCHEMA\<close> lists its keys.
\<close>

datatype SystemColumn =
    in_dt | in_trans_id | in_product_id | in_quantity | in_price_total
  | in_trans_type | in_customer_id | in_description | in_category | in_unit_type | in_stock
  | in_cost_unit | in_cost_total | in_price_unit | in_discount_total | in_commission_total
  | in_margin

datatype dtype = datetime64_ns | object | float64

text \<open>\<open>optional\<close> and \<open>inferable\<close> are the numbers 0 and 1 of the source.\<close>

record ColumnSpec =
  optional :: nat
  inferable :: nat
  description :: string
  dtype :: dtype

text \<open>
  \<open>COLUMN_SCHEMA\<close> is an object literal whose keys are not integer-like, so
  \<open>Object.entries\<close> enumerates it in the order of the literal: an association list.
\<close>

definition COLUMN_SCHEMA :: "(SystemColumn \<times> ColumnSpec) list" where
  "COLUMN_SCHEMA =
    [(in_dt, \<lparr>optional = 0, inferable = 0,
        description = ''Transaction datetime'', dtype = datetime64_ns\<rparr>),
     (in_trans_id, \<lparr>optional = 0, inferable = 0,
        description = ''Unique transaction identifier'', dtype = object\<rparr>),
     (in_product_id, \<lparr>optional = 0, inferable = 0,
        description = ''Product identifier'', dtype = object\<rparr>),
     (in_quantity, \<lparr>optional = 0, inferable = 0,
        description = ''Quantity of items in transaction'', dtype = float64\<rparr>),
     (in_price_total, \<lparr>optional = 0, inferable = 0,
        description = ''Total price/revenue for transaction'', dtype = float64\<rparr>),
     (in_trans_type, \<lparr>optional = 1, inferable = 0,
        description = ''Transaction type (sale, return, etc.)'', dtype = object\<rparr>),
     (in_customer_id, \<lparr>optional = 1, inferable = 0,
        description = ''Customer identifier'', dtype = object\<rparr>),
     (in_description, \<lparr>optional = 1, inferable = 0,
        description = ''Product description'', dtype = object\<rparr>),
     (in_category, \<lparr>optional = 1, inferable = 0,
        description = ''Product category'', dtype = object\<rparr>),
     (in_unit_type, \<lparr>optional = 1, inferable = 0,
        description = ''Unit of measure (kg, unit, liter, etc.)'', dtype = object\<rparr>),
     (in_stock, \<lparr>optional = 1, inferable = 0,
        description = ''Current stock level'', dtype = float64\<rparr>),
     (in_cost_unit, \<lparr>optional = 1, inferable = 1,
        description = ''Cost per unit (can be inferred from cost_total/quantity)'',
        dtype = float64\<rparr>),
     (in_cost_total, \<lparr>optional = 1, inferable = 1,
        description = ''Total cost (can be inferred from cost_unit * quantity)'',
        dtype = float64\<rparr>),
     (in_price_unit, \<lparr>optional = 1, inferable = 1,
        description = ''Price per unit (can be inferred from price_total/quantity)'',
        dtype = float64\<rparr>),
     (in_discount_total, \<lparr>optional = 1, inferable = 1,
        description = ''Total discount amount (can be inferred)'', dtype = float64\<rparr>),
     (in_commission_total, \<lparr>optional = 1, inferable = 1,
        description = ''Total commission amount (can be inferred)'', dtype = float64\<rparr>),
     (in_margin, \<lparr>optional = 1, inferable = 1,
        description = ''Profit margin (can be inferred from price and cost)'',
        dtype = float64\<rparr>)]"

definition getRequiredColumns :: "SystemColumn list" where
  "getRequiredColumns =
     map (\<lambda>(col, _). col) (filter (\<lambda>(_, spec). optional spec = 0) COLUMN_SCHEMA)"

definition getOptionalColumns :: "SystemColumn list" where
  "getOptionalColumns =
     map (\<lambda>(col, _). col) (filter (\<lambda>(_, spec). optional spec = 1) COLUMN_SCHEMA)"

definition getInferableColumns :: "SystemColumn list" where
  "getInferableColumns =
     map (\<lambda>(col, _). col) (filter (\<lambda>(_, spec). inferable spec = 1) COLUMN_SCHEMA)"

section \<open>Mapping entries and validation\<close>

text \<open>
  The value held by the \<open>systemColumn\<close> field of a mapping entry at run time. The declared
  type is \<open>SystemColumn | null\<close>; the third alternative is the value that a property read on
  the synonym table finds on \<open>Object.prototype\<close> (see \<open>suggestMapping\<close> below), named by
  the property that was read.
\<close>

datatype target = Null | Col SystemColumn | Inherited string

record ColumnMapping =
  csvColumn :: string
  systemColumn :: target

record ValidationResult =
  valid :: bool
  missingRequired :: "SystemColumn list"

text \<open>
  \<open>validateMappings\<close>: the targets that are not \<open>null\<close>, then the required columns that
  \<open>includes\<close> does not find among them.
\<close>

definition validateMappings :: "ColumnMapping list \<Rightarrow> ValidationResult" where
  "validateMappings mappings =
     (let requiredColumns = getRequiredColumns;
          mappedSystemColumns = map systemColumn (filter (\<lambda>m. systemColumn m \<noteq> Null) mappings);
          missing = filter (\<lambda>col. \<not> List.member mappedSystemColumns (Col col)) requiredColumns
      in \<lparr>valid = (length missing = 0), missingRequired = missing\<rparr>)"

section \<open>The normalization of a column name (first line of suggestMapping)\<close>

text \<open>
  A JavaScript string is a sequence of 16-bit code units, here natural numbers.
  \<open>String.prototype.toLowerCase\<close> reads the string as code points
  (\<open>StringToCodePoints\<close>: a leading surrogate followed by a trailing one is one code point,
  any other code unit is a code point by itself, also an unpaired surrogate), lower-cases the
  code points and writes the result as code units again (\<open>CodePointsToString\<close>).
\<close>

definition isLeadingSurrogate :: "nat \<Rightarrow> bool" where
  "isLeadingSurrogate u = (0xD800 \<le> u \<and> u \<le> 0xDBFF)"

definition isTrailingSurrogate :: "nat \<Rightarrow> bool" where
  "isTrailingSurrogate u = (0xDC00 \<le> u \<and> u \<le> 0xDFFF)"

definition UTF16SurrogatePairToCodePoint :: "nat \<Rightarrow> nat \<Rightarrow> nat" where
  "UTF16SurrogatePairToCodePoint lead trail =
     (lead - 0xD800) * 0x400 + (trail - 0xDC00) + 0x10000"

fun StringToCodePoints :: "nat list \<Rightarrow> nat list" where
  "StringToCodePoints (first # second # rest) =
     (if isLeadingSurrogate first \<and> isTrailingSurrogate second
      then UTF16SurrogatePairToCodePoint first second # StringToCodePoints rest
      else first # StringToCodePoints (second # rest))"
| "StringToCodePoints [first] = [first]"
| "StringToCodePoints [] = []"

definition UTF16EncodeCodePoint :: "nat \<Rightarrow> nat list" where
  "UTF16EncodeCodePoint cp =
     (if cp \<le> 0xFFFF then [cp]
      else [(cp - 0x10000) div 0x400 + 0xD800, (cp - 0x10000) mod 0x400 + 0xDC00])"

definition CodePointsToString :: "nat list \<Rightarrow> nat list" where
  "CodePointsToString cps = concat (map UTF16EncodeCodePoint cps)"

text \<open>
  The lower-casing of a sequence of code points is the algorithm \<open>toLowercase\<close> of the Unicode
  standard. The algorithm and its tables belong to the JavaScript engine, not to the
  repository: \<open>toLowerCase16\<close> takes the algorithm as its first argument.
\<close>

definition toLowerCase16 :: "(nat list \<Rightarrow> nat list) \<Rightarrow> nat list \<Rightarrow> nat list" where
  "toLowerCase16 toLowercase s = CodePointsToString (toLowercase (StringToCodePoints s))"

text \<open>
  The class \<open>\s\<close> of a regular expression without the flag \<open>u\<close>, on code units: the white
  space and the line terminators of the language.
\<close>

definition isWhiteSpace16 :: "nat \<Rightarrow> bool" where
  "isWhiteSpace16 u =
     (u \<in> {0x9, 0xA, 0xB, 0xC, 0xD, 0x20, 0xA0, 0x1680, 0x2028, 0x2029, 0x202F, 0x205F,
            0x3000, 0xFEFF}
      \<or> (0x2000 \<le> u \<and> u \<le> 0x200A))"

text \<open>The character class \<open>[_\s-]\<close> on code units.\<close>

definition isSeparator16 :: "nat \<Rightarrow> bool" where
  "isSeparator16 u = (u = 0x5F \<or> isWhiteSpace16 u \<or> u = 0x2D)"

text \<open>
  \<open>csvColumn.toLowerCase().replace(/[_\s-]/g, '')\<close> on a JavaScript string: the replacement
  works on the code units of the lower-cased string.
\<close>

definition normalized16 :: "(nat list \<Rightarrow> nat list) \<Rightarrow> nat list \<Rightarrow> nat list" where
  "normalized16 toLowercase s =
     filter (\<lambda>u. \<not> isSeparator16 u) (toLowerCase16 toLowercase s)"

text \<open>
  A scalar value is a code point that is no surrogate; a string is well formed
  (\<open>String.prototype.isWellFormed\<close>) when it has no unpaired surrogate, that is when all its
  code points are scalar values.
\<close>

definition isScalarValue :: "nat \<Rightarrow> bool" where
  "isScalarValue cp = (cp < 0xD800 \<or> (0xE000 \<le> cp \<and> cp \<le> 0x10FFFF))"

definition isWellFormed :: "nat list \<Rightarrow> bool" where
  "isWellFormed s = list_all isScalarValue (StringToCodePoints s)"

text \<open>
  The lower-case mappings of three blocks of the Unicode tables: Basic Latin, Latin-1
  Supplement (U+00C0 to U+00DE without the multiplication sign U+00D7) and Deseret
  (U+10400 to U+10427). \<open>toLowercaseBlocks\<close> is the Unicode algorithm on strings whose
  letters lie in these blocks; it is the instance at which concrete strings are evaluated.
  An unpaired surrogate has no case mapping and is left alone.
\<close>

definition lowercaseMapping :: "nat \<Rightarrow> nat" where
  "lowercaseMapping cp =
     (if (0x41 \<le> cp \<and> cp \<le> 0x5A) \<or> (0xC0 \<le> cp \<and> cp \<le> 0xD6) \<or> (0xD8 \<le> cp \<and> cp \<le> 0xDE)
      then cp + 0x20
      else if 0x10400 \<le> cp \<and> cp \<le> 0x10427 then cp + 0x28
      else cp)"

definition toLowercaseBlocks :: "nat list \<Rightarrow> nat list" where
  "toLowercaseBlocks cps = map lowercaseMapping cps"

section \<open>Suggestion resolver (suggestMapping in components/Upload/ColumnMapping)\<close>

text \<open>
  The keys of the synonym table and the column names of the scenarios are strings of code
  units below U+0100, which \<open>string\<close> holds one \<open>char\<close> for each. On such strings every
  code unit is a code point, and the normalization above is \<open>normalized\<close> below, character
  by character (lemma \<open>normalized16_latin1\<close>): \<open>toLowerCase\<close> maps A to Z and the upper-case
  letters of Latin-1 to the letter 32 places further and leaves every other code unit alone.
  The resolver is modelled on these strings.
\<close>

definition toLowerCase_char :: "char \<Rightarrow> char" where
  "toLowerCase_char c =
     (let n = (of_char c :: nat)
      in if (65 \<le> n \<and> n \<le> 90) \<or> (192 \<le> n \<and> n \<le> 214) \<or> (216 \<le> n \<and> n \<le> 222)
         then char_of (n + 32) else c)"

definition toLowerCase :: "string \<Rightarrow> string" where
  "toLowerCase s = map toLowerCase_char s"

text \<open>
  The class \<open>\s\<close> of a regular expression: tab, line feed, vertical tab, form feed,
  carriage return, space and no-break space are its members below U+0100.
\<close>

definition isWhiteSpace :: "char \<Rightarrow> bool" where
  "isWhiteSpace c = ((of_char c :: nat) \<in> {9, 10, 11, 12, 13, 32, 160})"

text \<open>The character class \<open>[_\s-]\<close>.\<close>

definition isSeparator :: "char \<Rightarrow> bool" where
  "isSeparator c = (c = CHR ''_'' \<or> isWhiteSpace c \<or> c = CHR ''-'')"

text \<open>\<open>csvColumn.toLowerCase().replace(/[_\s-]/g, '')\<close>, the local \<open>normalized\<close>.\<close>

definition normalized :: "string \<Rightarrow> string" where
  "normalized name = filter (\<lambda>c. \<not> isSeparator c) (toLowerCase name)"

text \<open>The object literal \<open>suggestions\<close>, in the order of the source; its keys are distinct.\<close>

definition suggestions :: "(string \<times> SystemColumn) list" where
  "suggestions =
    [(''date'', in_dt), (''datetime'', in_dt), (''fecha'', in_dt),
     (''transactionid'', in_trans_id), (''transid'', in_trans_id),
     (''idtransaccion'', in_trans_id),
     (''productid'', in_product_id), (''producto'', in_product_id),
     (''idproducto'', in_product_id),
     (''quantity'', in_quantity), (''cantidad'', in_quantity), (''qty'', in_quantity),
     (''price'', in_price_total), (''pricetotal'', in_price_total), (''total'', in_price_total),
     (''precio'', in_price_total), (''revenue'', in_price_total),
     (''customer'', in_customer_id), (''customerid'', in_customer_id),
     (''cliente'', in_customer_id),
     (''description'', in_description), (''descripcion'', in_description),
     (''category'', in_category), (''categoria'', in_category),
     (''cost'', in_cost_total), (''costtotal'', in_cost_total), (''costo'', in_cost_total),
     (''stock'', in_stock), (''inventory'', in_stock), (''inventario'', in_stock),
     (''margin'', in_margin), (''margen'', in_margin),
     (''discount'', in_discount_total), (''descuento'', in_discount_total)]"

text \<open>
  \<open>suggestions\<close> is a plain object, so the read \<open>suggestions[normalized]\<close> that finds no own
  property goes on to \<open>Object.prototype\<close>. These are the property names found there; each of
  them holds a function or an object, which \<open>||\<close> takes as true.
\<close>

definition objectPrototypeKeys :: "string list" where
  "objectPrototypeKeys =
    [''constructor'', ''hasOwnProperty'', ''isPrototypeOf'', ''propertyIsEnumerable'',
     ''toLocaleString'', ''toString'', ''valueOf'', ''__defineGetter__'', ''__defineSetter__'',
     ''__lookupGetter__'', ''__lookupSetter__'', ''__proto__'']"

text \<open>
  \<open>suggestions[normalized] || null\<close>: an own property wins, then an inherited one;
  \<open>undefined\<close> becomes \<open>null\<close>.
\<close>

definition suggestMapping :: "string \<Rightarrow> target" where
  "suggestMapping name =
     (let n = normalized name
      in case map_of suggestions n of
           Some col \<Rightarrow> Col col
         | None \<Rightarrow> if List.member objectPrototypeKeys n then Inherited n else Null)"

section \<open>Mapping state (the component ColumnMapping)\<close>

text \<open>
  The optional property \<open>initialMappings\<close> is \<open>None\<close> when the caller leaves it out.
  \<open>initialState\<close> is the initializer given to \<open>useState\<close>.
\<close>

definition initialState :: "string list \<Rightarrow> ColumnMapping list option \<Rightarrow> ColumnMapping list" where
  "initialState csvColumns initialMappings =
     (case initialMappings of
        Some given \<Rightarrow>
          if length given > 0 then given
          else map (\<lambda>col. \<lparr>csvColumn = col, systemColumn = Null\<rparr>) csvColumns
      | None \<Rightarrow> map (\<lambda>col. \<lparr>csvColumn = col, systemColumn = Null\<rparr>) csvColumns)"

text \<open>
  The effect that runs on mount. Its guard is \<open>!initialMappings\<close>, which holds only when the
  property is left out: an array, also an empty one, is true in JavaScript.
\<close>

definition autoSuggest ::
  "string list \<Rightarrow> ColumnMapping list option \<Rightarrow> ColumnMapping list \<Rightarrow> ColumnMapping list" where
  "autoSuggest csvColumns initialMappings mappings =
     (case initialMappings of
        None \<Rightarrow> map (\<lambda>col. \<lparr>csvColumn = col, systemColumn = suggestMapping col\<rparr>) csvColumns
      | Some _ \<Rightarrow> mappings)"

text \<open>The state once the component is mounted: the initializer, then the effect.\<close>

definition initialize :: "string list \<Rightarrow> ColumnMapping list option \<Rightarrow> ColumnMapping list" where
  "initialize csvColumns initialMappings =
     autoSuggest csvColumns initialMappings (initialState csvColumns initialMappings)"

text \<open>\<open>handleMappingChange\<close>, as the function from the previous state to the next.\<close>

definition handleMappingChange :: "string \<Rightarrow> target \<Rightarrow> ColumnMapping list \<Rightarrow> ColumnMapping list" where
  "handleMappingChange col sysCol prev =
     map (\<lambda>m. if csvColumn m = col then m\<lparr>systemColumn := sysCol\<rparr> else m) prev"

definition isSystemColumnMapped :: "ColumnMapping list \<Rightarrow> SystemColumn \<Rightarrow> bool" where
  "isSystemColumnMapped mappings sysCol = list_ex (\<lambda>m. systemColumn m = Col sysCol) mappings"

text \<open>
  \<open>mapping?.csvColumn || null\<close>: no entry gives \<open>null\<close>, and so does an entry whose source
  column is the empty string, which \<open>||\<close> takes as false.
\<close>

definition getMappedCsvColumn :: "ColumnMapping list \<Rightarrow> SystemColumn \<Rightarrow> string option" where
  "getMappedCsvColumn mappings sysCol =
     (case find (\<lambda>m. systemColumn m = Col sysCol) mappings of
        None \<Rightarrow> None
      | Some m \<Rightarrow> if csvColumn m = [] then None else Some (csvColumn m))"

text \<open>
  The remove button of \<open>renderSystemColumn\<close>: it is rendered under the guard
  \<open>isMapped && mappedCsvColumn\<close>, and a click calls
  \<open>handleMappingChange(mappedCsvColumn, null)\<close>. Without the button the state stays.
\<close>

definition removeMapping :: "ColumnMapping list \<Rightarrow> SystemColumn \<Rightarrow> ColumnMapping list" where
  "removeMapping mappings sysCol =
     (if isSystemColumnMapped mappings sysCol
      then (case getMappedCsvColumn mappings sysCol of
              Some mappedCsvColumn \<Rightarrow> handleMappingChange mappedCsvColumn Null mappings
            | None \<Rightarrow> mappings)
      else mappings)"

text \<open>The two user actions, and a run of them from a state.\<close>

datatype action = SetMapping string target | RemoveMapping SystemColumn

fun perform :: "ColumnMapping list \<Rightarrow> action \<Rightarrow> ColumnMapping list" where
  "perform mappings (SetMapping col sysCol) = handleMappingChange col sysCol mappings"
| "perform mappings (RemoveMapping sysCol) = removeMapping mappings sysCol"

definition performAll :: "ColumnMapping list \<Rightarrow> action list \<Rightarrow> ColumnMapping list" where
  "performAll mappings actions = foldl perform mappings actions"

section \<open>Notification\<close>

text \<open>
  A callback either returns or throws; a thrown value is \<open>Inl\<close>. \<open>onValidationChange\<close> is
  optional and is called through \<open>?.\<close>. The effect has no \<open>try\<close>: the first throw ends it.
\<close>

datatype js_error = Error string

definition notifyEffect ::
  "ColumnMapping list \<Rightarrow> (ColumnMapping list \<Rightarrow> js_error + unit) \<Rightarrow>
   (bool \<Rightarrow> js_error + unit) option \<Rightarrow> js_error + unit" where
  "notifyEffect mappings onMappingChange onValidationChange =
     (let validation = validateMappings mappings
      in case (case onValidationChange of
                 None \<Rightarrow> Inr ()
               | Some callback \<Rightarrow> callback (valid validation)) of
           Inl thrown \<Rightarrow> Inl thrown
         | Inr _ \<Rightarrow> onMappingChange mappings)"

section \<open>Inputs taken from the component's tests\<close>

text \<open>The template literal \<open>${i}\<close> of a non-negative integer: its decimal digits.\<close>

fun decimal :: "nat \<Rightarrow> string" where
  "decimal n =
     (if n < 10 then [char_of (48 + n)] else decimal (n div 10) @ [char_of (48 + n mod 10)])"

declare decimal.simps [simp del]

text \<open>\<open>Array.from({ length: 100 }, (_, i) => `col_${i}`)\<close>, the hundred columns of the tests.\<close>

definition manyColumns :: "string list" where
  "manyColumns = map (\<lambda>i. ''col_'' @ decimal i) [0..<100]"

text \<open>
  The same hundred columns with the first one replaced by constructor, a column name of the
  test on prototype pollution.
\<close>

definition constructorColumns :: "string list" where
  "constructorColumns = ''constructor'' # tl manyColumns"

section \<open>Properties of the registry and the validator\<close>

lemma getRequiredColumns_eq:
  "getRequiredColumns = [in_dt, in_trans_id, in_product_id, in_quantity, in_price_total]"
  by (simp add: getRequiredColumns_def COLUMN_SCHEMA_def)

lemma getInferableColumns_eq:
  "getInferableColumns =
     [in_cost_unit, in_cost_total, in_price_unit, in_discount_total, in_commission_total, in_margin]"
  by (simp add: getInferableColumns_def COLUMN_SCHEMA_def)

lemma missingRequired_eq:
  "missingRequired (validateMappings ms) =
     filter (\<lambda>r. \<not> isSystemColumnMapped ms r) getRequiredColumns"
proof -
  have "List.member (map systemColumn (filter (\<lambda>m. systemColumn m \<noteq> Null) ms)) (Col r)
          = isSystemColumnMapped ms r" for r
    by (force simp: isSystemColumnMapped_def list_ex_iff)
  then show ?thesis
    by (simp add: validateMappings_def Let_def)
qed

lemma valid_eq:
  "valid (validateMappings ms) = (missingRequired (validateMappings ms) = [])"
  by (simp add: validateMappings_def Let_def)

text \<open>
  Claim C2. \<open>validateMappings\<close> answers \<open>valid\<close> exactly when every required column is the
  target of some entry; \<open>missingRequired\<close> is the list of required columns, in the order of the
  registry, that no entry has as its target; and when every entry has the target \<open>null\<close> the
  answer is \<open>valid = false\<close> with all five required columns missing, in the order of the registry.
\<close>

theorem validate_complete:
  "(valid (validateMappings ms) \<longleftrightarrow>
      (\<forall>r \<in> set getRequiredColumns. \<exists>m \<in> set ms. systemColumn m = Col r))
   \<and> missingRequired (validateMappings ms) =
      filter (\<lambda>r. \<not> (\<exists>m \<in> set ms. systemColumn m = Col r)) getRequiredColumns
   \<and> ((\<forall>m \<in> set ms. systemColumn m = Null) \<longrightarrow>
        validateMappings ms =
          \<lparr>valid = False,
           missingRequired = [in_dt, in_trans_id, in_product_id, in_quantity, in_price_total]\<rparr>)"
proof (intro conjI impI)
  show m: "missingRequired (validateMappings ms) =
      filter (\<lambda>r. \<not> (\<exists>m \<in> set ms. systemColumn m = Col r)) getRequiredColumns"
    by (simp add: missingRequired_eq isSystemColumnMapped_def list_ex_iff)
  show "valid (validateMappings ms) \<longleftrightarrow>
      (\<forall>r \<in> set getRequiredColumns. \<exists>m \<in> set ms. systemColumn m = Col r)"
    unfolding valid_eq m by (simp add: filter_empty_conv)
  assume none: "\<forall>m \<in> set ms. systemColumn m = Null"
  then have "filter (\<lambda>r. \<not> (\<exists>m \<in> set ms. systemColumn m = Col r)) getRequiredColumns
               = getRequiredColumns"
    by (auto intro: filter_True)
  with m have "missingRequired (validateMappings ms) = getRequiredColumns" by simp
  then show "validateMappings ms =
          \<lparr>valid = False,
           missingRequired = [in_dt, in_trans_id, in_product_id, in_quantity, in_price_total]\<rparr>"
    using valid_eq [of ms] by (simp add: getRequiredColumns_eq)
qed

text \<open>
  The theorem at two states of the tests: one unmapped column, and the five columns mapped
  to the five required ones.
\<close>

theorem validate_complete_witness:
  "validateMappings [\<lparr>csvColumn = ''col1'', systemColumn = Null\<rparr>] =
     \<lparr>valid = False,
      missingRequired = [in_dt, in_trans_id, in_product_id, in_quantity, in_price_total]\<rparr>
   \<and> valid (validateMappings
        [\<lparr>csvColumn = ''date'', systemColumn = Col in_dt\<rparr>,
         \<lparr>csvColumn = ''trans'', systemColumn = Col in_trans_id\<rparr>,
         \<lparr>csvColumn = ''prod'', systemColumn = Col in_product_id\<rparr>,
         \<lparr>csvColumn = ''qty'', systemColumn = Col in_quantity\<rparr>,
         \<lparr>csvColumn = ''price'', systemColumn = Col in_price_total\<rparr>])"
  using validate_complete [of "[\<lparr>csvColumn = ''col1'', systemColumn = Null\<rparr>]"]
    validate_complete [of
        "[\<lparr>csvColumn = ''date'', systemColumn = Col in_dt\<rparr>,
         \<lparr>csvColumn = ''trans'', systemColumn = Col in_trans_id\<rparr>,
         \<lparr>csvColumn = ''prod'', systemColumn = Col in_product_id\<rparr>,
         \<lparr>csvColumn = ''qty'', systemColumn = Col in_quantity\<rparr>,
         \<lparr>csvColumn = ''price'', systemColumn = Col in_price_total\<rparr>]"]
  by (simp add: getRequiredColumns_eq)

section \<open>Properties of the suggestion resolver\<close>

lemma toLowerCase_char_idem: "toLowerCase_char (toLowerCase_char c) = toLowerCase_char c"
  unfolding toLowerCase_char_def Let_def by auto

lemma normalized_fixed:
  "(\<forall>c \<in> set s. \<not> isSeparator c \<and> toLowerCase_char c = c) \<Longrightarrow> normalized s = s"
  by (induction s) (auto simp: normalized_def toLowerCase_def)

lemma normalized_chars:
  "\<forall>c \<in> set (normalized s). \<not> isSeparator c \<and> toLowerCase_char c = c"
  by (auto simp: normalized_def toLowerCase_def toLowerCase_char_idem)

lemma normalized_append: "normalized (a @ b) = normalized a @ normalized b"
  by (simp add: normalized_def toLowerCase_def)

text \<open>
  The counterexample to claim C1 as it is stated: on the six columns of the scenario the
  resolver does not answer with \<open>in_dt\<close>, none, none, \<open>in_quantity\<close>, \<open>in_price_total\<close>,
  \<open>in_customer_id\<close>.
\<close>

theorem scenario_A_counterexample:
  "map suggestMapping
     [''fecha'', ''id_transaccion'', ''producto'', ''cantidad'', ''precio_total'', ''cliente'']
   \<noteq> [Col in_dt, Null, Null, Col in_quantity, Col in_price_total, Col in_customer_id]"
  by code_simp

text \<open>
  Claim C1, amended. On the columns fecha, id_transaccion, producto, cantidad, precio_total,
  cliente the resolver answers \<open>in_dt\<close>, \<open>in_trans_id\<close>, \<open>in_product_id\<close>, \<open>in_quantity\<close>,
  none and \<open>in_customer_id\<close>: the table holds the keys idtransaccion and producto, and it
  holds no key preciototal.
\<close>

theorem scenario_A_suggestions:
  "map suggestMapping
     [''fecha'', ''id_transaccion'', ''producto'', ''cantidad'', ''precio_total'', ''cliente'']
   = [Col in_dt, Col in_trans_id, Col in_product_id, Col in_quantity, Null, Col in_customer_id]"
  by code_simp

text \<open>
  On strings of code units below U+0100 the normalization is idempotent, and the resolver's
  answer for a name is its answer for the normalized name.
\<close>

lemma normalized_latin1_idempotent:
  "normalized (normalized s) = normalized s \<and> suggestMapping (normalized s) = suggestMapping s"
proof -
  have "normalized (normalized s) = normalized s"
    by (rule normalized_fixed) (rule normalized_chars)
  then show ?thesis by (simp add: suggestMapping_def)
qed

subsection \<open>The normalization on UTF-16 strings\<close>

lemma not_lead_cons:
  "\<not> isLeadingSurrogate u \<Longrightarrow> StringToCodePoints (u # rest) = u # StringToCodePoints rest"
  by (cases rest) simp_all

lemma encode_scalar:
  "isScalarValue cp \<Longrightarrow>
     StringToCodePoints (UTF16EncodeCodePoint cp @ rest) = cp # StringToCodePoints rest"
proof (cases "cp \<le> 0xFFFF")
  case True
  assume "isScalarValue cp"
  with True have "\<not> isLeadingSurrogate cp"
    by (auto simp: isScalarValue_def isLeadingSurrogate_def)
  with True show ?thesis by (simp add: UTF16EncodeCodePoint_def not_lead_cons)
next
  case False
  assume sc: "isScalarValue cp"
  define d where "d = cp - 0x10000"
  from False sc have d: "d < 0x100000" and cp: "cp = d + 0x10000"
    by (auto simp: d_def isScalarValue_def)
  have q: "d div 0x400 < 0x400" using d by simp
  have r: "d mod 0x400 < 0x400" by simp
  have l: "isLeadingSurrogate (d div 0x400 + 0xD800)"
    using q by (simp add: isLeadingSurrogate_def)
  have t: "isTrailingSurrogate (d mod 0x400 + 0xDC00)"
    using r by (simp add: isTrailingSurrogate_def)
  have p: "UTF16SurrogatePairToCodePoint (d div 0x400 + 0xD800) (d mod 0x400 + 0xDC00) = cp"
    by (simp add: UTF16SurrogatePairToCodePoint_def cp)
  have "UTF16EncodeCodePoint cp = [d div 0x400 + 0xD800, d mod 0x400 + 0xDC00]"
    using False by (simp add: UTF16EncodeCodePoint_def d_def)
  then show ?thesis using l t p by simp
qed

lemma codePoints_encode:
  "list_all isScalarValue cps \<Longrightarrow> StringToCodePoints (CodePointsToString cps) = cps"
  by (induction cps) (simp_all add: CodePointsToString_def encode_scalar)

lemma filter_encode_scalar:
  "isScalarValue cp \<Longrightarrow>
     filter (\<lambda>u. \<not> isSeparator16 u) (UTF16EncodeCodePoint cp) =
       (if isSeparator16 cp then [] else UTF16EncodeCodePoint cp)"
proof (cases "cp \<le> 0xFFFF")
  case True
  then show ?thesis by (simp add: UTF16EncodeCodePoint_def)
next
  case False
  define d where "d = cp - 0x10000"
  assume "isScalarValue cp"
  with False have "d div 0x400 < 0x400"
    by (auto simp: d_def isScalarValue_def)
  then have a: "\<not> isSeparator16 (d div 0x400 + 0xD800)"
    by (auto simp: isSeparator16_def isWhiteSpace16_def)
  have b: "\<not> isSeparator16 (d mod 0x400 + 0xDC00)"
    by (auto simp: isSeparator16_def isWhiteSpace16_def)
  have c: "\<not> isSeparator16 cp"
    using False by (auto simp: isSeparator16_def isWhiteSpace16_def)
  show ?thesis using False a b c by (simp add: UTF16EncodeCodePoint_def d_def)
qed

lemma filter_encode:
  "list_all isScalarValue cps \<Longrightarrow>
     filter (\<lambda>u. \<not> isSeparator16 u) (CodePointsToString cps) =
       CodePointsToString (filter (\<lambda>u. \<not> isSeparator16 u) cps)"
  by (induction cps) (simp_all add: CodePointsToString_def filter_encode_scalar)

lemma lowercaseMapping_scalar: "isScalarValue cp \<Longrightarrow> isScalarValue (lowercaseMapping cp)"
  by (auto simp: isScalarValue_def lowercaseMapping_def)

lemma lowercaseMapping_idem: "lowercaseMapping (lowercaseMapping cp) = lowercaseMapping cp"
  by (auto simp: lowercaseMapping_def)

lemma blocks_scalar:
  "list_all isScalarValue cps \<Longrightarrow> list_all isScalarValue (toLowercaseBlocks cps)"
  by (simp add: toLowercaseBlocks_def list_all_iff lowercaseMapping_scalar)

lemma blocks_lowered: "list_all (\<lambda>cp. lowercaseMapping cp = cp) (toLowercaseBlocks cps)"
  by (simp add: toLowercaseBlocks_def list_all_iff lowercaseMapping_idem)

lemma blocks_fixed:
  "list_all (\<lambda>cp. lowercaseMapping cp = cp) cps \<Longrightarrow> toLowercaseBlocks cps = cps"
  by (simp add: toLowercaseBlocks_def list_all_iff map_idI)

text \<open>
  On a string of code units below U+0100, given one \<open>char\<close> for each code unit, the
  normalization on UTF-16 strings is \<open>normalized\<close>.
\<close>

lemma of_char_less: "(of_char c :: nat) < 256"
proof -
  have "(of_char c :: nat) mod 256 < 256" by simp
  then show ?thesis by (simp only: of_char_mod_256)
qed

lemma latin1_codePoints: "list_all (\<lambda>u. u < 0x100) s \<Longrightarrow> StringToCodePoints s = s"
  by (induction s) (simp_all add: not_lead_cons isLeadingSurrogate_def)

lemma latin1_encode: "list_all (\<lambda>u. u < 0x100) s \<Longrightarrow> CodePointsToString s = s"
  by (induction s) (simp_all add: CodePointsToString_def UTF16EncodeCodePoint_def)

lemma lowercaseMapping_of_char:
  "lowercaseMapping (of_char c) = (of_char (toLowerCase_char c) :: nat)"
proof -
  obtain n :: nat where n: "of_char c = n" "n < 256"
    using of_char_less by blast
  then show ?thesis
    by (auto simp: lowercaseMapping_def toLowerCase_char_def Let_def)
qed

lemma isSeparator16_of_char: "isSeparator16 (of_char c) = isSeparator c"
proof -
  have "(of_char c = (0x5F :: nat)) = (c = CHR ''_'')"
    using of_char_eq_iff [of c "CHR ''_''", where ?'a = nat] by simp
  moreover have "(of_char c = (0x2D :: nat)) = (c = CHR ''-'')"
    using of_char_eq_iff [of c "CHR ''-''", where ?'a = nat] by simp
  moreover have "isWhiteSpace16 (of_char c) = isWhiteSpace c"
  proof -
    obtain n :: nat where n: "of_char c = n" "n < 256"
      using of_char_less by blast
    then show ?thesis
      by (auto simp: isWhiteSpace16_def isWhiteSpace_def)
  qed
  ultimately show ?thesis by (simp add: isSeparator16_def isSeparator_def)
qed

lemma normalized16_latin1:
  "normalized16 toLowercaseBlocks (map of_char s) = map of_char (normalized s)"
proof -
  have a: "list_all (\<lambda>u. u < 0x100) (map of_char s :: nat list)"
    using of_char_less by (simp add: list_all_iff)
  have b: "toLowercaseBlocks (map of_char s) = map of_char (toLowerCase s)"
    by (simp add: toLowercaseBlocks_def toLowerCase_def lowercaseMapping_of_char)
  have c: "list_all (\<lambda>u. u < 0x100) (map of_char (toLowerCase s) :: nat list)"
    using of_char_less by (simp add: list_all_iff)
  show ?thesis
    unfolding normalized16_def toLowerCase16_def latin1_codePoints [OF a] b latin1_encode [OF c]
    by (simp add: normalized_def filter_map comp_def isSeparator16_of_char)
qed

lemma surrogates_apart:
  "normalized16 toLowercaseBlocks [0xD801, 0x5F, 0xDC00] = [0xD801, 0xDC00]"
  by (simp add: normalized16_def toLowerCase16_def toLowercaseBlocks_def lowercaseMapping_def
      CodePointsToString_def UTF16EncodeCodePoint_def isSeparator16_def isWhiteSpace16_def
      isLeadingSurrogate_def isTrailingSurrogate_def)

lemma surrogates_joined:
  "normalized16 toLowercaseBlocks [0xD801, 0xDC00] = [0xD801, 0xDC28]"
  by (simp add: normalized16_def toLowerCase16_def toLowercaseBlocks_def lowercaseMapping_def
      CodePointsToString_def UTF16EncodeCodePoint_def isSeparator16_def isWhiteSpace16_def
      isLeadingSurrogate_def isTrailingSurrogate_def UTF16SurrogatePairToCodePoint_def)

text \<open>
  The counterexample to claim C5 as it is stated: in the string U+D801 U+005F U+DC00 the two
  surrogates are unpaired and have no case; the first normalization removes the underscore
  between them, which makes them the one code point U+10400, and the second normalization
  lower-cases that code point to U+10428.
\<close>

theorem normalized16_surrogate_counterexample:
  "normalized16 toLowercaseBlocks (normalized16 toLowercaseBlocks [0xD801, 0x5F, 0xDC00])
   \<noteq> normalized16 toLowercaseBlocks [0xD801, 0x5F, 0xDC00]"
  by (simp add: surrogates_apart surrogates_joined)

text \<open>
  Claim C5, amended. On every well-formed string (no unpaired surrogate) normalizing twice
  gives what normalizing once gives. What is used of Unicode's \<open>toLowercase\<close>: it takes
  scalar values to scalar values, and there is a set of code points (those without a
  lower-case mapping) such that its result lies in the set and a sequence in the set is left
  as it is. (The resolver reads nothing but its argument and the constant table, so it is a
  function of its argument.)
\<close>

theorem normalized16_idempotent:
  assumes scalar:
      "\<And>cps. list_all isScalarValue cps \<Longrightarrow> list_all isScalarValue (toLowercase cps)"
    and lowered: "\<And>cps. list_all unchanged (toLowercase cps)"
    and fixed: "\<And>cps. list_all unchanged cps \<Longrightarrow> toLowercase cps = cps"
    and wf: "isWellFormed s"
  shows "normalized16 toLowercase (normalized16 toLowercase s) = normalized16 toLowercase s"
proof -
  define ys where "ys = toLowercase (StringToCodePoints s)"
  define zs where "zs = filter (\<lambda>u. \<not> isSeparator16 u) ys"
  have ys: "list_all isScalarValue ys" "list_all unchanged ys"
    using wf scalar lowered by (simp_all add: ys_def isWellFormed_def)
  then have zs: "list_all isScalarValue zs" "list_all unchanged zs"
    by (simp_all add: zs_def list_all_iff)
  have n1: "normalized16 toLowercase s = CodePointsToString zs"
    using ys(1)
    by (simp add: normalized16_def toLowerCase16_def ys_def [symmetric] zs_def filter_encode)
  have "normalized16 toLowercase (CodePointsToString zs)
          = filter (\<lambda>u. \<not> isSeparator16 u) (CodePointsToString (toLowercase zs))"
    using zs(1) by (simp add: normalized16_def toLowerCase16_def codePoints_encode)
  also have "\<dots> = filter (\<lambda>u. \<not> isSeparator16 u) (CodePointsToString zs)"
    using zs(2) by (simp add: fixed)
  also have "\<dots> = CodePointsToString (filter (\<lambda>u. \<not> isSeparator16 u) zs)"
    using zs(1) by (rule filter_encode)
  also have "filter (\<lambda>u. \<not> isSeparator16 u) zs = zs"
    by (simp add: zs_def)
  finally show ?thesis by (simp add: n1)
qed

text \<open>
  The theorem at the string P, hyphen, U+10400 as a surrogate pair, space, U+00C9: it is
  well formed, and its normalization is p, U+10428 as a surrogate pair, U+00E9.
\<close>

theorem normalized16_idempotent_witness:
  "normalized16 toLowercaseBlocks
     (normalized16 toLowercaseBlocks [0x50, 0x2D, 0xD801, 0xDC00, 0x20, 0xC9])
   = normalized16 toLowercaseBlocks [0x50, 0x2D, 0xD801, 0xDC00, 0x20, 0xC9]
   \<and> normalized16 toLowercaseBlocks [0x50, 0x2D, 0xD801, 0xDC00, 0x20, 0xC9]
   = [0x70, 0xD801, 0xDC28, 0xE9]"
proof -
  have wf: "isWellFormed [0x50, 0x2D, 0xD801, 0xDC00, 0x20, 0xC9]"
    by (simp add: isWellFormed_def isScalarValue_def isLeadingSurrogate_def
        isTrailingSurrogate_def UTF16SurrogatePairToCodePoint_def)
  have v: "normalized16 toLowercaseBlocks [0x50, 0x2D, 0xD801, 0xDC00, 0x20, 0xC9]
             = [0x70, 0xD801, 0xDC28, 0xE9]"
    by (simp add: normalized16_def toLowerCase16_def toLowercaseBlocks_def lowercaseMapping_def
        CodePointsToString_def UTF16EncodeCodePoint_def isSeparator16_def isWhiteSpace16_def
        isLeadingSurrogate_def isTrailingSurrogate_def UTF16SurrogatePairToCodePoint_def)
  from normalized16_idempotent [of toLowercaseBlocks "\<lambda>cp. lowercaseMapping cp = cp",
      OF blocks_scalar blocks_lowered blocks_fixed wf] v
  show ?thesis by blast
qed

subsection \<open>The range of the resolver\<close>

text \<open>
  Claim C10 at the column name constructor: the table has no such key, the read goes on to
  \<open>Object.prototype\<close>, and the resolver returns what it finds there, which is neither a
  system column nor \<open>null\<close>.
\<close>

theorem suggestMapping_constructor:
  "suggestMapping ''constructor'' = Inherited ''constructor''"
  by code_simp

text \<open>
  Every other name gets \<open>null\<close> or one of the twelve system columns of the table: a normalized
  name has no upper-case letter and no underscore, and each other property name of
  \<open>Object.prototype\<close> has one.
\<close>

lemma suggestions_values:
  "map_of suggestions n = Some col \<Longrightarrow>
     col \<in> {in_dt, in_trans_id, in_product_id, in_quantity, in_price_total, in_customer_id,
            in_description, in_category, in_cost_total, in_stock, in_margin, in_discount_total}"
  by (drule map_of_SomeD) (auto simp: suggestions_def)

lemma unstable_chars:
  "toLowerCase_char CHR ''O'' \<noteq> CHR ''O'' \<and> toLowerCase_char CHR ''P'' \<noteq> CHR ''P''
   \<and> toLowerCase_char CHR ''I'' \<noteq> CHR ''I'' \<and> toLowerCase_char CHR ''L'' \<noteq> CHR ''L''
   \<and> toLowerCase_char CHR ''S'' \<noteq> CHR ''S'' \<and> isSeparator CHR ''_''"
  by code_simp

lemma normalized_prototype_key:
  assumes "normalized s \<in> set objectPrototypeKeys"
  shows "normalized s = ''constructor''"
proof -
  have stable: "\<forall>c \<in> set (normalized s). \<not> isSeparator c \<and> toLowerCase_char c = c"
    by (rule normalized_chars)
  from assms consider "normalized s = ''constructor''"
    | "CHR ''O'' \<in> set (normalized s)" | "CHR ''P'' \<in> set (normalized s)"
    | "CHR ''I'' \<in> set (normalized s)" | "CHR ''L'' \<in> set (normalized s)"
    | "CHR ''S'' \<in> set (normalized s)" | "CHR ''_'' \<in> set (normalized s)"
    by (auto simp: objectPrototypeKeys_def)
  then show ?thesis
    using stable unstable_chars by cases blast+
qed

lemma suggestMapping_range:
  "suggestMapping s \<in>
     {Null, Inherited ''constructor''} \<union>
     Col ` {in_dt, in_trans_id, in_product_id, in_quantity, in_price_total, in_customer_id,
            in_description, in_category, in_cost_total, in_stock, in_margin, in_discount_total}"
proof (cases "map_of suggestions (normalized s)")
  case None
  then show ?thesis
    using normalized_prototype_key [of s] by (auto simp: suggestMapping_def Let_def)
next
  case (Some col)
  then show ?thesis
    using suggestions_values [of "normalized s" col] by (simp add: suggestMapping_def)
qed

lemma col_prefix_unmatched: "suggestMapping (''col_'' @ rest) = Null"
proof -
  have n: "normalized (''col_'' @ rest) = ''col'' @ normalized rest"
    unfolding normalized_append by code_simp
  show ?thesis
    unfolding suggestMapping_def n Let_def
    by (simp add: suggestions_def objectPrototypeKeys_def)
qed

lemma col_prefix_no_synonym: "map_of suggestions (normalized (''col_'' @ rest)) = None"
proof -
  have n: "normalized (''col_'' @ rest) = ''col'' @ normalized rest"
    unfolding normalized_append by code_simp
  show ?thesis
    unfolding n by (simp add: suggestions_def)
qed

lemma manyColumns_unmatched: "\<forall>col \<in> set manyColumns. suggestMapping col = Null"
  unfolding manyColumns_def by (auto simp only: set_map col_prefix_unmatched)

lemma manyColumns_no_synonym:
  "\<forall>col \<in> set manyColumns. map_of suggestions (normalized col) = None"
  unfolding manyColumns_def by (auto simp only: set_map col_prefix_no_synonym)

lemma manyColumns_length: "length manyColumns = 100"
  by (simp add: manyColumns_def)

lemma manyColumns_prefixed: "col \<in> set manyColumns \<Longrightarrow> \<exists>rest. col = ''col_'' @ rest"
  by (auto simp only: manyColumns_def set_map)

lemma in_set_tl: "x \<in> set (tl xs) \<Longrightarrow> x \<in> set xs"
  by (cases xs) simp_all

lemma manyColumns_distinct: "distinct manyColumns"
  by code_simp

section \<open>Properties of the mapping state\<close>

lemma initialize_unseeded:
  "initialize cols None = map (\<lambda>col. \<lparr>csvColumn = col, systemColumn = suggestMapping col\<rparr>) cols"
  by (simp add: initialize_def autoSuggest_def)

lemma initialize_empty_seed:
  "initialize cols (Some []) = map (\<lambda>col. \<lparr>csvColumn = col, systemColumn = Null\<rparr>) cols"
  by (simp add: initialize_def autoSuggest_def initialState_def)

lemma initialize_seeded: "given \<noteq> [] \<Longrightarrow> initialize cols (Some given) = given"
  by (simp add: initialize_def autoSuggest_def initialState_def)

lemma initialize_names:
  "seed = None \<or> seed = Some [] \<Longrightarrow> map csvColumn (initialize cols seed) = cols"
  by (auto simp: initialize_unseeded initialize_empty_seed comp_def)

text \<open>
  Claim C3 at the empty array as the seed. The initializer of the state takes the empty
  array for no seed, as it takes a missing one; the effect that suggests on mount takes it
  for a seed. The column fecha is left unmapped, while with no seed it is mapped to \<open>in_dt\<close>.
\<close>

theorem initialize_empty_seed_unsuggested:
  "initialize [''fecha''] (Some []) = [\<lparr>csvColumn = ''fecha'', systemColumn = Null\<rparr>]
   \<and> initialize [''fecha''] None = [\<lparr>csvColumn = ''fecha'', systemColumn = Col in_dt\<rparr>]
   \<and> initialState [''fecha''] (Some []) = initialState [''fecha''] None"
proof -
  have "suggestMapping ''fecha'' = Col in_dt" by code_simp
  then show ?thesis
    by (simp add: initialize_unseeded initialize_empty_seed initialState_def)
qed

text \<open>
  The order of the state. A seed is the caller's to keep in step with the source columns:
  when a seed that is given and not empty names the source columns in their order, and
  always when there is none, the state has the length of the input and names its columns in
  the input's order.
\<close>

lemma initialize_order_contract:
  assumes "\<And>given. seed = Some given \<Longrightarrow> given \<noteq> [] \<Longrightarrow> map csvColumn given = cols"
  shows "map csvColumn (initialize cols seed) = cols"
    and "length (initialize cols seed) = length cols"
proof -
  show names: "map csvColumn (initialize cols seed) = cols"
  proof (cases seed)
    case None
    then show ?thesis by (simp add: initialize_names)
  next
    case (Some given)
    with assms show ?thesis
      by (cases "given = []") (simp_all add: initialize_names initialize_seeded)
  qed
  then show "length (initialize cols seed) = length cols"
    by (metis length_map)
qed

text \<open>
  A column that matches no synonym gets the target \<open>null\<close>, unless its normalized name is
  constructor.
\<close>

lemma no_synonym_suggestion:
  assumes "map_of suggestions (normalized name) = None"
  shows "suggestMapping name =
           (if normalized name = ''constructor'' then Inherited ''constructor'' else Null)"
proof (cases "normalized name \<in> set objectPrototypeKeys")
  case True
  then have "normalized name = ''constructor''" by (rule normalized_prototype_key)
  with assms show ?thesis
    by (simp add: suggestMapping_def objectPrototypeKeys_def)
next
  case False
  moreover from False have "normalized name \<noteq> ''constructor''"
    by (auto simp: objectPrototypeKeys_def)
  ultimately show ?thesis
    using assms by (simp add: suggestMapping_def)
qed

text \<open>The hundred columns of the tests: one entry for each, in their order, all unmapped.\<close>

lemma manyColumns_all_unmapped:
  "initialize manyColumns None =
     map (\<lambda>col. \<lparr>csvColumn = col, systemColumn = Null\<rparr>) manyColumns"
  using manyColumns_unmatched by (simp add: initialize_unseeded)

text \<open>
  Claim C4 at a hundred distinct columns of which none matches a synonym and the first is
  named constructor: the state has the hundred columns in their order, but the target of the
  first is what the read found on \<open>Object.prototype\<close>, not \<open>null\<close>.
\<close>

theorem initialize_constructor_column:
  "length constructorColumns = 100
   \<and> distinct constructorColumns
   \<and> list_all (\<lambda>col. map_of suggestions (normalized col) = None) constructorColumns
   \<and> map csvColumn (initialize constructorColumns None) = constructorColumns
   \<and> initialize constructorColumns None ! 0
       = \<lparr>csvColumn = ''constructor'', systemColumn = Inherited ''constructor''\<rparr>"
proof -
  have tl_in: "col \<in> set manyColumns" if "col \<in> set (tl manyColumns)" for col
    using that by (rule in_set_tl)
  have "''constructor'' \<notin> set (tl manyColumns)"
  proof
    assume "''constructor'' \<in> set (tl manyColumns)"
    then have "''constructor'' \<in> set manyColumns" by (rule in_set_tl)
    then obtain rest where "''constructor'' = ''col_'' @ rest"
      using manyColumns_prefixed by blast
    then show False by simp
  qed
  then have "distinct constructorColumns"
    using manyColumns_distinct by (simp add: constructorColumns_def distinct_tl)
  moreover have "length constructorColumns = 100"
    by (simp add: constructorColumns_def manyColumns_length)
  moreover have "map_of suggestions (normalized ''constructor'') = None"
    by code_simp
  then have "list_all (\<lambda>col. map_of suggestions (normalized col) = None) constructorColumns"
    using manyColumns_no_synonym tl_in by (simp add: constructorColumns_def list_all_iff)
  moreover have "map csvColumn (initialize constructorColumns None) = constructorColumns"
    by (simp add: initialize_names)
  moreover have "suggestMapping ''constructor'' = Inherited ''constructor''"
    by code_simp
  then have "initialize constructorColumns None ! 0
       = \<lparr>csvColumn = ''constructor'', systemColumn = Inherited ''constructor''\<rparr>"
    by (simp add: initialize_unseeded constructorColumns_def)
  ultimately show ?thesis by blast
qed

lemma handleMappingChange_names:
  "map csvColumn (handleMappingChange col t ms) = map csvColumn ms"
  by (simp add: handleMappingChange_def)

lemma removeMapping_names: "map csvColumn (removeMapping ms X) = map csvColumn ms"
  by (simp add: removeMapping_def handleMappingChange_names split: option.splits)

lemma perform_names: "map csvColumn (perform ms a) = map csvColumn ms"
  by (cases a) (simp_all add: handleMappingChange_names removeMapping_names)

lemma performAll_names: "map csvColumn (performAll ms acts) = map csvColumn ms"
  unfolding performAll_def by (induction acts arbitrary: ms) (simp_all add: perform_names)

text \<open>
  Claim C6. \<open>handleMappingChange\<close> keeps the length of the state; at every position, an entry
  for the source column \<open>s\<close> gets the target \<open>t\<close> and any other entry stays as it is; and
  nothing is checked about \<open>t\<close>: giving column b the target that column a already has
  yields a state in which both have it.
\<close>

theorem setMapping_frame:
  "length (handleMappingChange s t ms) = length ms
   \<and> (\<forall>i < length ms.
        handleMappingChange s t ms ! i =
          (if csvColumn (ms ! i) = s then (ms ! i)\<lparr>systemColumn := t\<rparr> else ms ! i))
   \<and> handleMappingChange ''b'' (Col in_dt)
        [\<lparr>csvColumn = ''a'', systemColumn = Col in_dt\<rparr>, \<lparr>csvColumn = ''b'', systemColumn = Null\<rparr>]
       = [\<lparr>csvColumn = ''a'', systemColumn = Col in_dt\<rparr>,
          \<lparr>csvColumn = ''b'', systemColumn = Col in_dt\<rparr>]"
  by (simp add: handleMappingChange_def)

theorem setMapping_frame_witness:
  "handleMappingChange ''col2'' (Col in_trans_id)
     [\<lparr>csvColumn = ''col1'', systemColumn = Col in_dt\<rparr>,
      \<lparr>csvColumn = ''col2'', systemColumn = Null\<rparr>] ! 1
     = \<lparr>csvColumn = ''col2'', systemColumn = Col in_trans_id\<rparr>
   \<and> handleMappingChange ''col2'' (Col in_trans_id)
     [\<lparr>csvColumn = ''col1'', systemColumn = Col in_dt\<rparr>,
      \<lparr>csvColumn = ''col2'', systemColumn = Null\<rparr>] ! 0
     = \<lparr>csvColumn = ''col1'', systemColumn = Col in_dt\<rparr>"
  using setMapping_frame [of "''col2''" "Col in_trans_id"
      "[\<lparr>csvColumn = ''col1'', systemColumn = Col in_dt\<rparr>,
        \<lparr>csvColumn = ''col2'', systemColumn = Null\<rparr>]"]
  by simp

lemma removeMapping_unmapped: "\<not> isSystemColumnMapped ms X \<Longrightarrow> removeMapping ms X = ms"
  by (simp add: removeMapping_def)

lemma removeMapping_one:
  assumes one: "filter (\<lambda>m. systemColumn m = Col X) ms = [e]" and name: "csvColumn e \<noteq> []"
  shows "removeMapping ms X = handleMappingChange (csvColumn e) Null ms"
    and "\<not> isSystemColumnMapped (removeMapping ms X) X"
proof -
  have "find (\<lambda>m. systemColumn m = Col X) ms = Some e"
    using one by (induction ms) (auto split: if_splits)
  moreover have mapped: "isSystemColumnMapped ms X"
    using one by (auto simp: isSystemColumnMapped_def list_ex_iff filter_eq_Cons_iff)
  ultimately show r: "removeMapping ms X = handleMappingChange (csvColumn e) Null ms"
    using name by (simp add: removeMapping_def getMappedCsvColumn_def)
  have "m = e" if "m \<in> set ms" "systemColumn m = Col X" for m
  proof -
    from that have "m \<in> set (filter (\<lambda>m. systemColumn m = Col X) ms)" by simp
    with one show ?thesis by simp
  qed
  then show "\<not> isSystemColumnMapped (removeMapping ms X) X"
    unfolding r by (auto simp: isSystemColumnMapped_def list_ex_iff handleMappingChange_def)
qed

text \<open>
  The counterexample to claim C7 as it is stated: the columns date and fecha are both
  suggested \<open>in_dt\<close>; removing the mapping of \<open>in_dt\<close> clears the first of them only, so
  \<open>in_dt\<close> is still mapped and the validator does not list it as missing.
\<close>

theorem removeMapping_duplicate_counterexample:
  "isSystemColumnMapped (removeMapping (initialize [''date'', ''fecha''] None) in_dt) in_dt
   \<and> in_dt \<notin> set (missingRequired
        (validateMappings (removeMapping (initialize [''date'', ''fecha''] None) in_dt)))"
  by code_simp

text \<open>
  Claim C7, amended. When exactly one entry of the state has the target \<open>X\<close> and its source
  column is not the empty string, \<open>removeMapping\<close> sets the target of that source column to
  \<open>null\<close>; afterwards \<open>X\<close> is not mapped, and when \<open>X\<close> is required the validator answers
  \<open>valid = false\<close> and lists \<open>X\<close> as missing. When no entry has the target \<open>X\<close>, the state is
  returned unchanged.
\<close>

theorem removeMapping_single:
  "(filter (\<lambda>m. systemColumn m = Col X) ms = [e] \<and> csvColumn e \<noteq> [] \<longrightarrow>
      removeMapping ms X = handleMappingChange (csvColumn e) Null ms
      \<and> \<not> isSystemColumnMapped (removeMapping ms X) X
      \<and> (X \<in> set getRequiredColumns \<longrightarrow>
           \<not> valid (validateMappings (removeMapping ms X))
           \<and> X \<in> set (missingRequired (validateMappings (removeMapping ms X)))))
   \<and> (\<not> isSystemColumnMapped ms X \<longrightarrow> removeMapping ms X = ms)"
proof (intro conjI impI)
  assume "\<not> isSystemColumnMapped ms X"
  then show "removeMapping ms X = ms" by (rule removeMapping_unmapped)
next
  assume h: "filter (\<lambda>m. systemColumn m = Col X) ms = [e] \<and> csvColumn e \<noteq> []"
  then show "removeMapping ms X = handleMappingChange (csvColumn e) Null ms"
    by (simp add: removeMapping_one(1))
  from h show gone: "\<not> isSystemColumnMapped (removeMapping ms X) X"
    by (simp add: removeMapping_one(2))
  assume "X \<in> set getRequiredColumns"
  with gone show "X \<in> set (missingRequired (validateMappings (removeMapping ms X)))"
    by (simp add: missingRequired_eq)
  then show "\<not> valid (validateMappings (removeMapping ms X))"
    unfolding valid_eq by auto
qed

theorem removeMapping_single_witness:
  "removeMapping [\<lparr>csvColumn = ''fecha'', systemColumn = Col in_dt\<rparr>] in_dt
     = [\<lparr>csvColumn = ''fecha'', systemColumn = Null\<rparr>]
   \<and> in_dt \<in> set (missingRequired (validateMappings
        (removeMapping [\<lparr>csvColumn = ''fecha'', systemColumn = Col in_dt\<rparr>] in_dt)))
   \<and> removeMapping [\<lparr>csvColumn = ''fecha'', systemColumn = Null\<rparr>] in_dt
     = [\<lparr>csvColumn = ''fecha'', systemColumn = Null\<rparr>]"
proof -
  let ?e = "\<lparr>csvColumn = ''fecha'', systemColumn = Col in_dt\<rparr>"
  have a: "filter (\<lambda>m. systemColumn m = Col in_dt) [?e] = [?e] \<and> csvColumn ?e \<noteq> []"
    by simp
  have b: "in_dt \<in> set getRequiredColumns"
    by (simp add: getRequiredColumns_eq)
  have c: "\<not> isSystemColumnMapped [\<lparr>csvColumn = ''fecha'', systemColumn = Null\<rparr>] in_dt"
    by (simp add: isSystemColumnMapped_def)
  have d: "handleMappingChange (csvColumn ?e) Null [?e]
             = [\<lparr>csvColumn = ''fecha'', systemColumn = Null\<rparr>]"
    by (simp add: handleMappingChange_def)
  from removeMapping_single [of in_dt "[?e]" ?e] a b
  have "removeMapping [?e] in_dt = handleMappingChange (csvColumn ?e) Null [?e]"
    and "in_dt \<in> set (missingRequired (validateMappings (removeMapping [?e] in_dt)))"
    by blast+
  moreover from removeMapping_single
      [of in_dt "[\<lparr>csvColumn = ''fecha'', systemColumn = Null\<rparr>]" ?e] c
  have "removeMapping [\<lparr>csvColumn = ''fecha'', systemColumn = Null\<rparr>] in_dt
          = [\<lparr>csvColumn = ''fecha'', systemColumn = Null\<rparr>]"
    by blast
  ultimately show ?thesis by (simp only: d simp_thms)
qed

text \<open>
  The counterexample to claim C9 as it is stated: a source column that is presented twice
  has two entries.
\<close>

theorem duplicate_columns_counterexample:
  "\<not> distinct (map csvColumn (initialize [''a'', ''a''] None))
   \<and> length (initialize [''a'', ''a''] None) = 2"
  by (simp add: initialize_unseeded)

text \<open>
  Claim C9, amended. No run of \<open>setMapping\<close> and \<open>removeMapping\<close> actions changes the
  sequence of source columns of the state. When the seed is absent or empty that sequence is
  the input, one entry for each element of it in its order; so the state has exactly one entry
  for each distinct source column when the input repeats no string.
\<close>

theorem state_names_invariant:
  "map csvColumn (performAll (initialize cols seed) acts) = map csvColumn (initialize cols seed)
   \<and> (seed = None \<or> seed = Some [] \<longrightarrow>
        map csvColumn (performAll (initialize cols seed) acts) = cols
        \<and> (distinct cols \<longrightarrow>
             distinct (map csvColumn (performAll (initialize cols seed) acts))
             \<and> set (map csvColumn (performAll (initialize cols seed) acts)) = set cols))"
  by (simp add: performAll_names initialize_names)

theorem state_names_invariant_witness:
  "map csvColumn
     (performAll (initialize [''fecha'', ''col1''] None)
        [SetMapping ''col1'' (Col in_quantity), RemoveMapping in_dt])
   = [''fecha'', ''col1'']
   \<and> distinct (map csvColumn
       (performAll (initialize [''fecha'', ''col1''] None)
          [SetMapping ''col1'' (Col in_quantity), RemoveMapping in_dt]))"
  using state_names_invariant
    [of "[''fecha'', ''col1'']" None "[SetMapping ''col1'' (Col in_quantity), RemoveMapping in_dt]"]
  by (simp add: initialize_unseeded)

section \<open>Properties of the notification\<close>

text \<open>
  Whatever the state is, also the one of the first render: a throw of \<open>onMappingChange\<close>
  leaves the effect, and a throw of \<open>onValidationChange\<close> leaves it before
  \<open>onMappingChange\<close> is called.
\<close>

lemma notify_mapping_throws: "notifyEffect ms (\<lambda>_. Inl e) None = Inl e"
  by (simp add: notifyEffect_def)

lemma notify_validation_throws: "notifyEffect ms onM (Some (\<lambda>_. Inl e)) = Inl e"
  by (simp add: notifyEffect_def)

text \<open>
  Claim C8 at the input of the component's own test: \<open>onMappingChange\<close> throws, and the
  effect ends with the thrown value instead of containing it.
\<close>

theorem notify_throwing_callback:
  "notifyEffect
     (initialize
        [''fecha'', ''id_transaccion'', ''producto'', ''cantidad'', ''precio_total'', ''cliente'']
        None)
     (\<lambda>_. Inl (Error ''Callback error'')) None
   = Inl (Error ''Callback error'')"
  by (simp add: notifyEffect_def)

end
